theory Spec2Isabelle
  imports Complex_Main
begin

section \<open>Python values\<close>

text \<open>
  The values that travel through the program: request bodies, tool-call arguments and the
  event dictionaries on a task's message queue. \<open>PObj\<close> stands for any other Python
  object (one that \<open>json.dumps\<close> rejects with a TypeError); it is identified by a label.
  A dictionary is an association list in insertion order, looked up with \<open>map_of\<close>.
\<close>

datatype pyval =
    PNone
  | PBool bool
  | PInt int
  | PFloat real
  | PStr string
  | PList "pyval list"
  | PDict "(string \<times> pyval) list"
  | PObj string

type_synonym pydict = "(string \<times> pyval) list"

text \<open>Python truthiness (\<open>if v:\<close>, \<open>bool(v)\<close>).\<close>

fun truthy :: "pyval \<Rightarrow> bool" where
  "truthy PNone = False"
| "truthy (PBool b) = b"
| "truthy (PInt n) = (n \<noteq> 0)"
| "truthy (PFloat x) = (x \<noteq> 0)"
| "truthy (PStr s) = (s \<noteq> [])"
| "truthy (PList xs) = (xs \<noteq> [])"
| "truthy (PDict kvs) = (kvs \<noteq> [])"
| "truthy (PObj l) = True"

text \<open>\<open>isinstance(v, int)\<close>: in Python \<open>bool\<close> is a subclass of \<open>int\<close>.\<close>

fun isinstance_int :: "pyval \<Rightarrow> bool" where
  "isinstance_int (PInt n) = True"
| "isinstance_int (PBool b) = True"
| "isinstance_int v = False"

fun isinstance_bool :: "pyval \<Rightarrow> bool" where
  "isinstance_bool (PBool b) = True"
| "isinstance_bool v = False"

fun isinstance_str :: "pyval \<Rightarrow> bool" where
  "isinstance_str (PStr s) = True"
| "isinstance_str v = False"

text \<open>\<open>int(v)\<close> on a value that passed \<open>isinstance(v, int)\<close>.\<close>

fun int_of :: "pyval \<Rightarrow> int" where
  "int_of (PInt n) = n"
| "int_of (PBool b) = (if b then 1 else 0)"
| "int_of v = 0"

text \<open>\<open>v != 0\<close>: numbers compare by value across int, bool and float; nothing else equals 0.\<close>

fun neq_zero :: "pyval \<Rightarrow> bool" where
  "neq_zero (PInt n) = (n \<noteq> 0)"
| "neq_zero (PBool b) = b"
| "neq_zero (PFloat x) = (x \<noteq> 0)"
| "neq_zero v = True"

text \<open>
  Two builtins are parameters: \<open>repr\<close> is what \<open>str()\<close> returns on a value that is not a
  string, \<open>dumps_error\<close> is the text of the exception \<open>json.dumps\<close> raises on a value it
  cannot encode.
\<close>

record builtins =
  repr :: "pyval \<Rightarrow> string"
  dumps_error :: "pyval \<Rightarrow> string"

fun py_str :: "builtins \<Rightarrow> pyval \<Rightarrow> string" where
  "py_str B (PStr s) = s"
| "py_str B v = repr B v"

section \<open>The sequential thinking tool (trae\_agent/tools/sequential\_thinking\_tool.py)\<close>

record ThoughtData =
  thought :: string
  thought_number :: int
  total_thoughts :: int
  next_thought_needed :: bool
  is_revision :: "bool option"
  revises_thought :: "int option"
  branch_from_thought :: "int option"
  branch_id :: "string option"
  needs_more_thoughts :: "bool option"

text \<open>
  The ValueErrors of \<open>_validate_thought_data\<close>, in the order of their \<open>raise\<close> statements
  (the source's messages are Chinese text; each constructor names the check that failed).
\<close>

datatype validation_error =
    InvalidThought
  | InvalidThoughtNumber
  | InvalidTotalThoughts
  | InvalidNextThoughtNeeded
  | ThoughtNumberBelowOne
  | TotalThoughtsBelowOne
  | RevisesThoughtNotPositive
  | BranchFromThoughtNotPositive

text \<open>An optional positive-integer field: absent, None and 0 all give None.\<close>

definition optional_positive ::
  "validation_error \<Rightarrow> pydict \<Rightarrow> string \<Rightarrow> validation_error + int option" where
  "optional_positive e arguments k =
     (case map_of arguments k of
        None \<Rightarrow> Inr None
      | Some v \<Rightarrow>
          if v \<noteq> PNone \<and> neq_zero v
          then (if \<not> isinstance_int v \<or> int_of v < 1 then Inl e else Inr (Some (int_of v)))
          else Inr None)"

definition optional_field :: "pydict \<Rightarrow> string \<Rightarrow> (pyval \<Rightarrow> 'a) \<Rightarrow> 'a option" where
  "optional_field arguments k conv =
     (case map_of arguments k of
        None \<Rightarrow> None
      | Some v \<Rightarrow> if v \<noteq> PNone then Some (conv v) else None)"

definition validate_thought_data :: "builtins \<Rightarrow> pydict \<Rightarrow> validation_error + ThoughtData" where
  "validate_thought_data B arguments =
     (case map_of arguments ''thought'' of
        None \<Rightarrow> Inl InvalidThought
      | Some th \<Rightarrow>
     if \<not> isinstance_str th then Inl InvalidThought else
     (case map_of arguments ''thought_number'' of
        None \<Rightarrow> Inl InvalidThoughtNumber
      | Some tn \<Rightarrow>
     if \<not> isinstance_int tn then Inl InvalidThoughtNumber else
     (case map_of arguments ''total_thoughts'' of
        None \<Rightarrow> Inl InvalidTotalThoughts
      | Some tt \<Rightarrow>
     if \<not> isinstance_int tt then Inl InvalidTotalThoughts else
     (case map_of arguments ''next_thought_needed'' of
        None \<Rightarrow> Inl InvalidNextThoughtNeeded
      | Some nt \<Rightarrow>
     if \<not> isinstance_bool nt then Inl InvalidNextThoughtNeeded else
     if int_of tn < 1 then Inl ThoughtNumberBelowOne else
     if int_of tt < 1 then Inl TotalThoughtsBelowOne else
     (case optional_positive RevisesThoughtNotPositive arguments ''revises_thought'' of
        Inl e \<Rightarrow> Inl e
      | Inr revises \<Rightarrow>
     (case optional_positive BranchFromThoughtNotPositive arguments ''branch_from_thought'' of
        Inl e \<Rightarrow> Inl e
      | Inr branch_from \<Rightarrow>
          Inr \<lparr> thought = py_str B th,
                thought_number = int_of tn,
                total_thoughts = int_of tt,
                next_thought_needed = truthy nt,
                is_revision = optional_field arguments ''is_revision'' truthy,
                revises_thought = revises,
                branch_from_thought = branch_from,
                branch_id = optional_field arguments ''branch_id'' (py_str B),
                needs_more_thoughts = optional_field arguments ''needs_more_thoughts'' truthy \<rparr>
     ))))))"

text \<open>The tool object: its two instance attributes. \<open>branches\<close> is a dict in insertion order.\<close>

record SequentialThinkingTool =
  thought_history :: "ThoughtData list"
  branches :: "(string \<times> ThoughtData list) list"

definition init_tool :: SequentialThinkingTool where
  "init_tool = \<lparr> thought_history = [], branches = [] \<rparr>"

text \<open>
  The result of a call. The source renders \<open>response_data\<close> and the error into text with
  \<open>json.dumps\<close>; the model keeps the rendered data. \<open>error_code\<close> is 0 unless set.
\<close>

record response_data =
  rd_thought_number :: int
  rd_total_thoughts :: int
  rd_next_thought_needed :: bool
  rd_branches :: "string list"
  rd_thought_history_length :: nat

record ToolExecResult =
  tool_output :: "response_data option"
  tool_error :: "validation_error option"
  error_code :: int

text \<open>\<open>self.branches[bid].append(td)\<close>, after \<open>self.branches[bid] = []\<close> for a new key.\<close>

fun branches_append ::
  "(string \<times> ThoughtData list) list \<Rightarrow> string \<Rightarrow> ThoughtData \<Rightarrow> (string \<times> ThoughtData list) list" where
  "branches_append [] bid td = [(bid, [td])]"
| "branches_append ((k, v) # rest) bid td =
     (if k = bid then (k, v @ [td]) # rest else (k, v) # branches_append rest bid td)"

definition execute ::
  "builtins \<Rightarrow> SequentialThinkingTool \<Rightarrow> pydict \<Rightarrow> ToolExecResult \<times> SequentialThinkingTool" where
  "execute B self arguments =
     (case validate_thought_data B arguments of
        Inl e \<Rightarrow> (\<lparr> tool_output = None, tool_error = Some e, error_code = - 1 \<rparr>, self)
      | Inr v \<Rightarrow>
          let validated_input =
                (if thought_number v > total_thoughts v
                 then v\<lparr> total_thoughts := thought_number v \<rparr> else v);
              history = thought_history self @ [validated_input];
              brs =
                (case (branch_from_thought validated_input, branch_id validated_input) of
                   (Some n, Some bid) \<Rightarrow>
                     if n \<noteq> 0 \<and> bid \<noteq> []
                     then branches_append (branches self) bid validated_input
                     else branches self
                 | _ \<Rightarrow> branches self)
          in (\<lparr> tool_output = Some \<lparr> rd_thought_number = thought_number validated_input,
                                 rd_total_thoughts = total_thoughts validated_input,
                                 rd_next_thought_needed = next_thought_needed validated_input,
                                 rd_branches = map fst brs,
                                 rd_thought_history_length = length history \<rparr>,
                tool_error = None, error_code = 0 \<rparr>,
              \<lparr> thought_history = history, branches = brs \<rparr>))"

text \<open>A sequence of calls on the same tool object.\<close>

fun execute_calls :: "builtins \<Rightarrow> SequentialThinkingTool \<Rightarrow> pydict list \<Rightarrow> SequentialThinkingTool" where
  "execute_calls B self [] = self"
| "execute_calls B self (a # as) = execute_calls B (snd (execute B self a)) as"

definition in_bounds :: "ThoughtData \<Rightarrow> bool" where
  "in_bounds td = (1 \<le> thought_number td \<and> thought_number td \<le> total_thoughts td)"

section \<open>The task API (app.py)\<close>

text \<open>
  An event on a task's message queue is a Python dict. An exception is kept as the two
  texts the handlers read from it: \<open>str(e)\<close> and \<open>traceback.format_exc()\<close>. Text that the
  source writes in Chinese is kept as its UTF-8 bytes.
\<close>

type_synonym message = pydict

datatype exn = Exn string string

fun exn_str :: "exn \<Rightarrow> string" where
  "exn_str (Exn s tb) = s"

fun exn_traceback :: "exn \<Rightarrow> string" where
  "exn_traceback (Exn s tb) = tb"

definition is_type :: "string \<Rightarrow> message \<Rightarrow> bool" where
  "is_type t m = (map_of m ''type'' = Some (PStr t))"

definition count_type :: "string \<Rightarrow> message list \<Rightarrow> nat" where
  "count_type t ms = length (filter (is_type t) ms)"

subsection \<open>The worker: run\_agent\_task\<close>

text \<open>
  What a call inside the \<open>try\<close> block does: it returns, it raises an \<open>Exception\<close>, or it
  raises a \<open>BaseException\<close> that is not an \<open>Exception\<close> (KeyboardInterrupt, SystemExit),
  which \<open>except Exception\<close> does not catch.
\<close>

datatype 'r outcome = Returns 'r | Raises exn | RaisesBase

text \<open>
  One run of the worker: the outcomes of \<open>create_agent_config(config_data)\<close>, of
  \<open>Agent(...)\<close> and of \<open>asyncio.run(agent.run(task, task_args))\<close>, and the readings of
  \<open>time.time()\<close>, numbered in the order of the calls.
\<close>

record 'r worker_run =
  create_agent_config :: "unit outcome"
  create_agent :: "unit outcome"
  agent_run :: "'r outcome"
  clock :: "nat \<Rightarrow> real"

definition start_prefix :: string where
  "start_prefix =
     [CHR 0xE5, CHR 0xBC, CHR 0x80, CHR 0xE5, CHR 0xA7, CHR 0x8B, CHR 0xE6, CHR 0x89,
      CHR 0xA7, CHR 0xE8, CHR 0xA1, CHR 0x8C, CHR 0xE4, CHR 0xBB, CHR 0xBB, CHR 0xE5,
      CHR 0x8A, CHR 0xA1, CHR 0x3A, CHR 0x20]"

definition complete_text :: string where
  "complete_text =
     [CHR 0xE4, CHR 0xBB, CHR 0xBB, CHR 0xE5, CHR 0x8A, CHR 0xA1, CHR 0xE6, CHR 0x89,
      CHR 0xA7, CHR 0xE8, CHR 0xA1, CHR 0x8C, CHR 0xE5, CHR 0xAE, CHR 0x8C, CHR 0xE6,
      CHR 0x88, CHR 0x90]"

definition start_event :: "builtins \<Rightarrow> string \<Rightarrow> pyval \<Rightarrow> real \<Rightarrow> message" where
  "start_event B task_id task t =
     [(''type'', PStr ''start''), (''task_id'', PStr task_id),
      (''message'', PStr (start_prefix @ py_str B task)), (''timestamp'', PFloat t)]"

definition complete_event :: "string \<Rightarrow> real \<Rightarrow> message" where
  "complete_event task_id t =
     [(''type'', PStr ''complete''), (''task_id'', PStr task_id),
      (''message'', PStr complete_text), (''timestamp'', PFloat t)]"

definition error_event :: "string \<Rightarrow> exn \<Rightarrow> real \<Rightarrow> message" where
  "error_event task_id e t =
     [(''type'', PStr ''error''), (''task_id'', PStr task_id),
      (''error'', PStr (exn_str e)), (''traceback'', PStr (exn_traceback e)),
      (''timestamp'', PFloat t)]"

definition end_event :: "string \<Rightarrow> real \<Rightarrow> message" where
  "end_event task_id t =
     [(''type'', PStr ''end''), (''task_id'', PStr task_id), (''timestamp'', PFloat t)]"


text \<open>The \<open>try\<close> block: the events it puts on the queue and how it ends.\<close>

definition try_block ::
  "builtins \<Rightarrow> string \<Rightarrow> pyval \<Rightarrow> 'r worker_run \<Rightarrow> message list \<times> unit outcome" where
  "try_block B task_id task W =
     (case create_agent_config W of
        Raises e \<Rightarrow> ([], Raises e)
      | RaisesBase \<Rightarrow> ([], RaisesBase)
      | Returns config \<Rightarrow>
     (case create_agent W of
        Raises e \<Rightarrow> ([], Raises e)
      | RaisesBase \<Rightarrow> ([], RaisesBase)
      | Returns agent \<Rightarrow>
     (case agent_run W of
        Raises e \<Rightarrow> ([start_event B task_id task (clock W 0)], Raises e)
      | RaisesBase \<Rightarrow> ([start_event B task_id task (clock W 0)], RaisesBase)
      | Returns result \<Rightarrow>
          ([start_event B task_id task (clock W 0), complete_event task_id (clock W 1)],
           Returns ()))))"

text \<open>
  How the worker function ends: it returns, or a \<open>BaseException\<close> leaves it after the
  \<open>finally\<close> block has run.
\<close>

datatype worker_exit = Returned | Propagated

text \<open>
  \<open>run_agent_task\<close>: the events put on the queue, in order. The queue is given to nothing
  else in the worker: the agent is built without it (\<open>cli_console=None\<close>) and \<open>result\<close> is
  not read.
\<close>

definition run_agent_task ::
  "builtins \<Rightarrow> string \<Rightarrow> pyval \<Rightarrow> 'r worker_run \<Rightarrow> message list \<times> worker_exit" where
  "run_agent_task B task_id task W =
     (case try_block B task_id task W of
        (evs, Returns u) \<Rightarrow>
          (evs @ [end_event task_id (clock W (length evs))], Returned)
      | (evs, Raises e) \<Rightarrow>
          (evs @ [error_event task_id e (clock W (length evs)),
                  end_event task_id (clock W (length evs + 1))], Returned)
      | (evs, RaisesBase) \<Rightarrow>
          (evs @ [end_event task_id (clock W (length evs))], Propagated))"

subsection \<open>The registry of active tasks\<close>

text \<open>
  The handle of a worker process, as the supervisor sees it: whether it is alive, whether
  it exits within the 5 seconds that follow \<open>terminate()\<close>, and the exception that a call
  on the handle raises, if any.
\<close>

record process =
  alive :: bool
  exits_on_terminate :: bool
  handle_fault :: "exn option"

record task_info =
  process :: process
  queue :: "message list"
  start_time :: real
  status :: string

type_synonym active_tasks = "string \<rightharpoonup> task_info"

text \<open>
  The JSON responses: 200 with a body, 400 with \<open>{"error": msg}\<close>, 404 with
  \<open>{"error": "Task not found"}\<close>, 500 with the exception's texts.
\<close>

datatype response =
    Ok pydict
  | ClientError string
  | NotFound
  | ServerError exn

fun status_code :: "response \<Rightarrow> nat" where
  "status_code (Ok body) = 200"
| "status_code (ClientError msg) = 400"
| "status_code NotFound = 404"
| "status_code (ServerError e) = 500"

subsection \<open>Serialising an event\<close>

text \<open>Whether \<open>json.dumps\<close> accepts a value (it raises TypeError on any other object).\<close>

fun json_serializable :: "pyval \<Rightarrow> bool" where
  "json_serializable (PList xs) = list_all json_serializable xs"
| "json_serializable (PDict kvs) = list_all json_serializable (map snd kvs)"
| "json_serializable (PObj l) = False"
| "json_serializable v = True"

text \<open>The dict both readers build when \<open>json.dumps(message)\<close> raises.\<close>

definition serialization_error_message :: "builtins \<Rightarrow> message \<Rightarrow> real \<Rightarrow> message" where
  "serialization_error_message B message now =
     [(''type'', PStr ''error''),
      (''message'', PStr (''Message serialization error: '' @ dumps_error B (PDict message))),
      (''original_message'', PStr (py_str B (PDict message))),
      (''timestamp'', PFloat now)]"

definition checked_message :: "builtins \<Rightarrow> message \<Rightarrow> real \<Rightarrow> message" where
  "checked_message B message now =
     (if json_serializable (PDict message) then message
      else serialization_error_message B message now)"

subsection \<open>stream\_task\_messages\<close>

text \<open>
  A chunk of the stream: \<open>Data d\<close> is the text \<open>data: \<close> followed by the JSON encoding of
  \<open>d\<close> and an empty line.

  One iteration of the loop of \<open>generate\<close> sees either a message (\<open>get_nowait\<close> returns)
  or an empty queue (\<open>queue.Empty\<close>) and then the liveness of the worker; each comes with
  the reading of \<open>time.time()\<close> at that iteration. The generator is run on the sequence of
  what its iterations see.
\<close>

datatype chunk = Data pydict

datatype poll = Got message real | Empty bool real

text \<open>\<open>Closed\<close>: the loop has left through \<open>break\<close>. \<open>Polling\<close>: it is still running.\<close>

datatype stream_state = Closed | Polling

fun generate :: "builtins \<Rightarrow> string \<Rightarrow> poll list \<Rightarrow> chunk list \<times> stream_state" where
  "generate B task_id [] = ([], Polling)"
| "generate B task_id (Got message now # polls) =
     (if is_type ''end'' message then ([Data (checked_message B message now)], Closed)
      else (case generate B task_id polls of
              (chunks, s) \<Rightarrow> (Data (checked_message B message now) # chunks, s)))"
| "generate B task_id (Empty is_alive now # polls) =
     (if \<not> is_alive then ([Data (end_event task_id now)], Closed)
      else generate B task_id polls)"

text \<open>
  An iteration after which the loop goes on: a message that is not \<open>end\<close>, or an empty
  queue with the worker alive. \<open>relayed\<close> lists the chunks sent for the messages seen, in
  the order they were seen.
\<close>

fun continues :: "poll \<Rightarrow> bool" where
  "continues (Got m now) = (\<not> is_type ''end'' m)"
| "continues (Empty is_alive now) = is_alive"

fun relayed :: "builtins \<Rightarrow> poll list \<Rightarrow> chunk list" where
  "relayed B [] = []"
| "relayed B (Got m now # polls) = Data (checked_message B m now) # relayed B polls"
| "relayed B (Empty is_alive now # polls) = relayed B polls"

definition stream_task_messages ::
  "builtins \<Rightarrow> active_tasks \<Rightarrow> string \<Rightarrow> poll list \<Rightarrow> response + chunk list \<times> stream_state" where
  "stream_task_messages B tasks task_id polls =
     (if tasks task_id = None then Inl NotFound
      else Inr (generate B task_id polls))"

text \<open>What a stream on a task sees when the worker is dead and nobody else reads the queue.\<close>

definition dead_polls :: "message list \<Rightarrow> real \<Rightarrow> poll list" where
  "dead_polls q now = map (\<lambda>m. Got m now) q @ [Empty False now]"

subsection \<open>get\_task\_status\<close>

text \<open>
  The request is served at clock reading \<open>now\<close> on the queue as it stands: every message
  is taken off the queue and returned.
\<close>

definition get_task_status ::
  "builtins \<Rightarrow> real \<Rightarrow> active_tasks \<Rightarrow> string \<Rightarrow> response \<times> active_tasks" where
  "get_task_status B now tasks task_id =
     (case tasks task_id of
        None \<Rightarrow> (NotFound, tasks)
      | Some info \<Rightarrow>
          (case handle_fault (process info) of
             Some e \<Rightarrow> (ServerError e, tasks)
           | None \<Rightarrow>
               let task_status = (if alive (process info) then ''running'' else ''completed'');
                   info1 = (if alive (process info) then info else info\<lparr> status := task_status \<rparr>);
                   messages = map (\<lambda>m. checked_message B m now) (queue info)
               in (Ok [(''status'', PStr ''success''),
                       (''task_id'', PStr task_id),
                       (''task_status'', PStr task_status),
                       (''start_time'', PFloat (start_time info)),
                       (''duration'', PFloat (now - start_time info)),
                       (''messages'', PList (map PDict messages))],
                   tasks(task_id \<mapsto> info1\<lparr> queue := [] \<rparr>))))"

text \<open>The events a response of the status operation shows (none when it is not a 200).\<close>

fun response_messages :: "response \<Rightarrow> pyval list" where
  "response_messages (Ok body) =
     (case map_of body ''messages'' of Some (PList ms) \<Rightarrow> ms | _ \<Rightarrow> [])"
| "response_messages r = []"

text \<open>An entry of \<open>messages\<close> that is an \<open>end\<close> event.\<close>

fun shows_end :: "pyval \<Rightarrow> bool" where
  "shows_end (PDict m) = is_type ''end'' m"
| "shows_end v = False"

text \<open>A reader that calls the status operation \<open>n\<close> times: all the events it is shown.\<close>

fun status_reader :: "builtins \<Rightarrow> real \<Rightarrow> string \<Rightarrow> nat \<Rightarrow> active_tasks \<Rightarrow> pyval list" where
  "status_reader B now task_id 0 tasks = []"
| "status_reader B now task_id (Suc n) tasks =
     (case get_task_status B now tasks task_id of
        (r, tasks') \<Rightarrow> response_messages r @ status_reader B now task_id n tasks')"

subsection \<open>stop\_task\<close>

datatype process_action = Terminate | Join "nat option" | Kill

text \<open>
  The calls made on the handle and the handle afterwards; \<open>Join (Some 5)\<close> is
  \<open>join(timeout=5)\<close>, \<open>Join None\<close> is \<open>join()\<close>.
\<close>

definition stop_process :: "process \<Rightarrow> exn + process_action list \<times> process" where
  "stop_process p =
     (case handle_fault p of
        Some e \<Rightarrow> Inl e
      | None \<Rightarrow>
          if alive p then
            (if exits_on_terminate p
             then Inr ([Terminate, Join (Some 5)], p\<lparr> alive := False \<rparr>)
             else Inr ([Terminate, Join (Some 5), Kill, Join None], p\<lparr> alive := False \<rparr>))
          else Inr ([], p))"

definition stop_task ::
  "active_tasks \<Rightarrow> string \<Rightarrow> response \<times> process_action list \<times> active_tasks" where
  "stop_task tasks task_id =
     (case tasks task_id of
        None \<Rightarrow> (NotFound, [], tasks)
      | Some info \<Rightarrow>
          (case stop_process (process info) of
             Inl e \<Rightarrow> (ServerError e, [], tasks)
           | Inr (actions, p) \<Rightarrow>
               (Ok [(''status'', PStr ''success''),
                    (''message'', PStr ''Task stopped successfully'')],
                actions, tasks(task_id := None))))"

subsection \<open>run\_task\<close>

text \<open>
  What the request handler reads from its surroundings: the parsed request body (or the
  exception \<open>request.get_json()\<close> raises), \<open>Path(p).read_text()\<close>, \<open>os.getcwd()\<close>,
  \<open>Path(p).mkdir(parents=True, exist_ok=True)\<close> (the exception it raises, if any),
  \<open>os.path.abspath\<close>, \<open>str(uuid.uuid4())\<close>, the start of the worker process on
  \<open>(task_id, task, config_data, task_args)\<close> (the handle, or the exception raised),
  \<open>time.time()\<close>, and the TypeError and AttributeError that a path operation and \<open>.get\<close>
  raise on a value of the wrong type.
\<close>

datatype read_result = ReadOk string | FileNotFound | ReadRaises exn

record run_env =
  get_json :: "exn + pyval"
  read_text :: "string \<Rightarrow> read_result"
  getcwd :: string
  mkdir :: "string \<Rightarrow> exn option"
  abspath :: "string \<Rightarrow> string"
  uuid4 :: string
  start_process :: "string \<Rightarrow> pyval \<Rightarrow> pydict \<Rightarrow> pydict \<Rightarrow> exn + process"
  time_now :: real
  type_error :: "pyval \<Rightarrow> exn"
  attribute_error :: "pyval \<Rightarrow> exn"

text \<open>\<open>d.get(k)\<close>: \<open>None\<close> when the key is absent.\<close>

definition py_get :: "pydict \<Rightarrow> string \<Rightarrow> pyval" where
  "py_get d k = (case map_of d k of None \<Rightarrow> PNone | Some v \<Rightarrow> v)"

text \<open>A field of the request counts as given when its value is truthy.\<close>

definition given :: "pydict \<Rightarrow> string \<Rightarrow> bool" where
  "given d k = truthy (py_get d k)"

text \<open>\<open>os.path.join(a, b)\<close> and \<open>Path(p).is_absolute()\<close> on POSIX paths.\<close>

definition path_join :: "string \<Rightarrow> string \<Rightarrow> string" where
  "path_join a b =
     (if b \<noteq> [] \<and> hd b = CHR ''/'' then b
      else if a = [] \<or> last a = CHR ''/'' then a @ b
      else a @ ''/'' @ b)"

definition is_absolute :: "string \<Rightarrow> bool" where
  "is_absolute p = (p \<noteq> [] \<and> hd p = CHR ''/'')"

text \<open>
  The first part of \<open>run_task\<close>: the instruction, from \<open>task\<close> or from the file at
  \<open>file_path\<close>, or the response that ends the request.
\<close>

definition run_task_instruction :: "run_env \<Rightarrow> pydict \<Rightarrow> response + pyval" where
  "run_task_instruction E data =
     (let task = py_get data ''task''; file_path = py_get data ''file_path'' in
      if truthy file_path then
        (if truthy task then Inl (ClientError ''Cannot use both task and file_path'')
         else (case file_path of
                 PStr path \<Rightarrow>
                   (case read_text E path of
                      ReadOk text \<Rightarrow> Inr (PStr text)
                    | FileNotFound \<Rightarrow> Inl (ClientError (''File not found: '' @ path))
                    | ReadRaises e \<Rightarrow> Inl (ServerError e))
               | v \<Rightarrow> Inl (ServerError (type_error E v))))
      else if \<not> truthy task then Inl (ClientError ''Must provide either task or file_path'')
      else Inr task)"

text \<open>The second part: the working directory, created and made absolute.\<close>

definition run_task_working_dir :: "run_env \<Rightarrow> pydict \<Rightarrow> response + string" where
  "run_task_working_dir E data =
     (let dir_param = py_get data ''working_dir'' in
      case (if truthy dir_param
            then (case dir_param of
                    PStr s \<Rightarrow> Inr (path_join (getcwd E) s)
                  | v \<Rightarrow> Inl (ServerError (type_error E v)))
            else Inr (getcwd E)) of
        Inl r \<Rightarrow> Inl r
      | Inr working_dir \<Rightarrow>
          (case mkdir E working_dir of
             Some e \<Rightarrow> Inl (ClientError (''Error with working directory: '' @ exn_str e))
           | None \<Rightarrow>
               if \<not> is_absolute (abspath E working_dir)
               then Inl (ClientError ''Working directory must be an absolute path'')
               else Inr (abspath E working_dir)))"

definition task_args :: "pydict \<Rightarrow> string \<Rightarrow> pyval \<Rightarrow> pydict" where
  "task_args data working_dir task =
     [(''project_path'', PStr working_dir),
      (''issue'', task),
      (''must_patch'', PStr (if truthy (py_get data ''must_patch'') then ''true'' else ''false'')),
      (''patch_path'', py_get data ''patch_path'')]"

definition run_task :: "run_env \<Rightarrow> active_tasks \<Rightarrow> response \<times> active_tasks" where
  "run_task E tasks =
     (case get_json E of
        Inl e \<Rightarrow> (ServerError e, tasks)
      | Inr body \<Rightarrow>
          if \<not> truthy body then (ClientError ''No JSON data provided'', tasks)
          else (case body of
                  PDict data \<Rightarrow>
                    (case run_task_instruction E data of
                       Inl r \<Rightarrow> (r, tasks)
                     | Inr task \<Rightarrow>
                    (case run_task_working_dir E data of
                       Inl r \<Rightarrow> (r, tasks)
                     | Inr working_dir \<Rightarrow>
                    (case start_process E (uuid4 E) task data
                            (task_args data working_dir task) of
                       Inl e \<Rightarrow> (ServerError e, tasks)
                     | Inr p \<Rightarrow>
                         (Ok [(''status'', PStr ''success''),
                              (''message'', PStr ''Task started successfully''),
                              (''task_id'', PStr (uuid4 E))],
                          tasks(uuid4 E \<mapsto>
                            \<lparr> process = p, queue = [], start_time = time_now E,
                              status = ''running'' \<rparr>)))))
                | v \<Rightarrow> (ServerError (attribute_error E v), tasks)))"

section \<open>The OpenAI client (trae\_agent/utils/llm\_clients/openai\_client.py)\<close>

subsection \<open>Messages, tool calls and the provider's response\<close>

record ToolCall =
  tc_call_id :: string
  tc_name :: string
  tc_arguments :: pyval
  tc_id :: "string option"

record ToolResult =
  tr_call_id :: string
  tr_result :: "string option"
  tr_error :: "string option"

record LLMMessage =
  role :: string
  msg_content :: "string option"
  tool_call :: "ToolCall option"
  tool_result :: "ToolResult option"

text \<open>
  An entry of \<open>message_history\<close>. An assistant entry holds its content and, when the turn
  made tool calls, for each call its id, its function name and its arguments as JSON text;
  a tool entry holds its content and the id of the call it answers.
\<close>

datatype message_param =
    SystemMessage string
  | UserMessage string
  | AssistantMessage string "(string \<times> string \<times> string) list option"
  | ToolMessage string string

text \<open>The provider's ChatCompletion, as far as \<open>chat\<close> reads it.\<close>

record api_tool_call =
  api_id :: string
  api_name :: string
  api_arguments :: string

record api_message =
  api_content :: "string option"
  api_tool_calls :: "api_tool_call list option"

record api_choice =
  api_message :: api_message
  api_finish_reason :: string

text \<open>An attribute that an object may lack (\<open>hasattr\<close>, \<open>getattr\<close> with a default).\<close>

datatype 'a attr = Absent | Present 'a

record api_usage =
  prompt_tokens :: "int option"
  completion_tokens :: "int option"
  prompt_tokens_details :: "int option attr option attr"
  completion_tokens_details :: "int option attr option attr"

record chat_completion =
  api_choices :: "api_choice list"
  api_usage :: "api_usage option"
  api_model :: string

record LLMUsage =
  input_tokens :: int
  output_tokens :: int
  cache_read_input_tokens :: "int option"
  reasoning_tokens :: "int option"

record LLMResponse =
  content :: string
  usage :: "LLMUsage option"
  model :: string
  finish_reason :: string
  tool_calls :: "ToolCall list option"

record Tool =
  get_name :: string
  get_description :: string
  get_input_schema :: pyval

text \<open>A tool schema sent to the provider: name, description, parameters.\<close>

type_synonym tool_param = "string \<times> string \<times> pyval"

text \<open>
  What \<open>chat\<close> calls outside the client: the request to the provider with its retries
  (\<open>retry_decorator(self.message_history, model_config, tool_schemas)\<close>: the completion, or
  the exception that leaves it), \<open>json.loads\<close>, \<open>json.dumps\<close>, \<open>str.strip\<close>, and the
  trajectory recorder (\<open>None\<close> when the client has none; otherwise the exception its
  \<open>record_llm_interaction\<close> raises on a response, if any).
\<close>

record chat_env =
  create_response :: "message_param list \<Rightarrow> tool_param list option \<Rightarrow> exn + chat_completion"
  json_loads :: "string \<Rightarrow> exn + pyval"
  json_dumps :: "pyval \<Rightarrow> string"
  strip :: "string \<Rightarrow> string"
  trajectory_recorder :: "(LLMResponse \<Rightarrow> exn option) option"

datatype chat_error = ValueError string | IndexError | Raised exn

subsection \<open>parse\_messages\<close>

definition parse_tool_call_result :: "chat_env \<Rightarrow> ToolResult \<Rightarrow> message_param" where
  "parse_tool_call_result E tool_call_result =
     ToolMessage
       (strip E
          ((case tr_result tool_call_result of None \<Rightarrow> [] | Some s \<Rightarrow> s)
           @ (case tr_error tool_call_result of
                None \<Rightarrow> []
              | Some e \<Rightarrow> if e \<noteq> [] then CHR 0x0A # ''Error: '' @ e else [])))
       (tr_call_id tool_call_result)"

text \<open>One message of the loop: the entries it appends (one or none), or the ValueError.\<close>

definition parse_message :: "chat_env \<Rightarrow> LLMMessage \<Rightarrow> chat_error + message_param list" where
  "parse_message E msg =
     (case tool_result msg of
        Some r \<Rightarrow> Inr [parse_tool_call_result E r]
      | None \<Rightarrow>
     (case tool_call msg of
        Some c \<Rightarrow> Inr []
      | None \<Rightarrow>
     (case msg_content msg of
        None \<Rightarrow> Inl (ValueError ''Message content is required'')
      | Some text \<Rightarrow>
          if text = [] then Inl (ValueError ''Message content is required'')
          else if role msg = ''system'' then Inr [SystemMessage text]
          else if role msg = ''user'' then Inr [UserMessage text]
          else if role msg = ''assistant'' then Inr [AssistantMessage text None]
          else Inl (ValueError (''Invalid message role: '' @ role msg)))))"

fun parse_messages :: "chat_env \<Rightarrow> LLMMessage list \<Rightarrow> chat_error + message_param list" where
  "parse_messages E [] = Inr []"
| "parse_messages E (msg # msgs) =
     (case parse_message E msg of
        Inl e \<Rightarrow> Inl e
      | Inr entries \<Rightarrow>
          (case parse_messages E msgs of
             Inl e \<Rightarrow> Inl e
           | Inr rest \<Rightarrow> Inr (entries @ rest)))"

subsection \<open>chat\<close>

text \<open>\<open>tool_schemas\<close>: \<open>None\<close> unless \<open>tools\<close> is a non-empty list.\<close>

definition tool_schemas :: "Tool list option \<Rightarrow> tool_param list option" where
  "tool_schemas tools =
     (case tools of
        None \<Rightarrow> None
      | Some ts \<Rightarrow>
          if ts = [] then None
          else Some (map (\<lambda>tool. (get_name tool, get_description tool, get_input_schema tool)) ts))"

text \<open>The loop over \<open>choice.message.tool_calls\<close>; \<open>json.loads\<close> may raise.\<close>

fun convert_tool_calls :: "chat_env \<Rightarrow> api_tool_call list \<Rightarrow> chat_error + ToolCall list" where
  "convert_tool_calls E [] = Inr []"
| "convert_tool_calls E (c # cs) =
     (case (if api_arguments c \<noteq> [] then json_loads E (api_arguments c) else Inr (PDict [])) of
        Inl e \<Rightarrow> Inl (Raised e)
      | Inr args \<Rightarrow>
          (case convert_tool_calls E cs of
             Inl e \<Rightarrow> Inl e
           | Inr rest \<Rightarrow>
               Inr (\<lparr> tc_call_id = api_id c, tc_name = api_name c, tc_arguments = args,
                      tc_id = Some (api_id c) \<rparr> # rest)))"

text \<open>
  \<open>getattr(getattr(usage, name, None), field, 0) if hasattr(usage, name) else 0\<close>.
\<close>

fun detail_tokens :: "int option attr option attr \<Rightarrow> int option" where
  "detail_tokens (Present (Some (Present v))) = v"
| "detail_tokens d = Some 0"

definition llm_usage :: "api_usage option \<Rightarrow> LLMUsage option" where
  "llm_usage u =
     (case u of
        None \<Rightarrow> None
      | Some us \<Rightarrow>
          Some \<lparr> input_tokens = (case prompt_tokens us of None \<Rightarrow> 0 | Some n \<Rightarrow> n),
                 output_tokens = (case completion_tokens us of None \<Rightarrow> 0 | Some n \<Rightarrow> n),
                 cache_read_input_tokens = detail_tokens (prompt_tokens_details us),
                 reasoning_tokens = detail_tokens (completion_tokens_details us) \<rparr>)"

text \<open>The update of \<open>message_history\<close> with the assistant's turn.\<close>

definition with_assistant_turn ::
  "chat_env \<Rightarrow> message_param list \<Rightarrow> string \<Rightarrow> ToolCall list \<Rightarrow> message_param list" where
  "with_assistant_turn E history text calls =
     (if calls \<noteq> [] then
        history @ [AssistantMessage text
          (Some (map (\<lambda>tc. (tc_call_id tc, tc_name tc, json_dumps E (tc_arguments tc))) calls))]
      else if text \<noteq> [] then history @ [AssistantMessage text None]
      else history)"

text \<open>
  \<open>chat\<close>, on the client's \<open>message_history\<close>: what it returns or raises, and the
  \<open>message_history\<close> afterwards.
\<close>

definition chat ::
  "chat_env \<Rightarrow> message_param list \<Rightarrow> LLMMessage list \<Rightarrow> Tool list option \<Rightarrow> bool \<Rightarrow>
   (chat_error + LLMResponse) \<times> message_param list" where
  "chat E message_history messages tools reuse_history =
     (case parse_messages E messages of
        Inl e \<Rightarrow> (Inl e, message_history)
      | Inr parsed_messages \<Rightarrow>
          let history = (if reuse_history then message_history @ parsed_messages
                         else parsed_messages) in
          (case create_response E history (tool_schemas tools) of
             Inl e \<Rightarrow> (Inl (Raised e), history)
           | Inr response \<Rightarrow>
          (case api_choices response of
             [] \<Rightarrow> (Inl IndexError, history)
           | choice # others \<Rightarrow>
               let text = (case api_content (api_message choice) of
                             None \<Rightarrow> [] | Some s \<Rightarrow> s) in
          (case convert_tool_calls E
                  (case api_tool_calls (api_message choice) of None \<Rightarrow> [] | Some cs \<Rightarrow> cs) of
             Inl e \<Rightarrow> (Inl e, history)
           | Inr calls \<Rightarrow>
               let llm_response =
                     \<lparr> content = text,
                       usage = llm_usage (api_usage response),
                       model = api_model response,
                       finish_reason = api_finish_reason choice,
                       tool_calls = (if calls \<noteq> [] then Some calls else None) \<rparr>;
                   history' = with_assistant_turn E history text calls
               in (case trajectory_recorder E of
                     None \<Rightarrow> (Inr llm_response, history')
                   | Some record_llm_interaction \<Rightarrow>
                       (case record_llm_interaction llm_response of
                          Some e \<Rightarrow> (Inl (Raised e), history')
                        | None \<Rightarrow> (Inr llm_response, history')))))))"

section \<open>Concrete inputs\<close>

text \<open>Inputs at which the theorems below are instantiated.\<close>

definition builtins0 :: builtins where
  "builtins0 = \<lparr> repr = (\<lambda>v. ''<object>''),
                 dumps_error = (\<lambda>v. ''Object is not JSON serializable'') \<rparr>"

definition run0 :: "nat worker_run" where
  "run0 = \<lparr> create_agent_config = Returns (), create_agent = Returns (),
            agent_run = Returns 1, clock = (\<lambda>k. 100 + real k) \<rparr>"



definition live_process :: process where
  "live_process = \<lparr> alive = True, exits_on_terminate = True, handle_fault = None \<rparr>"

definition stubborn_process :: process where
  "stubborn_process = \<lparr> alive = True, exits_on_terminate = False, handle_fault = None \<rparr>"

definition killed_process :: process where
  "killed_process = \<lparr> alive = False, exits_on_terminate = True, handle_fault = None \<rparr>"

definition info0 :: "process \<Rightarrow> message list \<Rightarrow> task_info" where
  "info0 p q = \<lparr> process = p, queue = q, start_time = 99, status = ''running'' \<rparr>"

definition start0 :: message where
  "start0 = start_event builtins0 ''t1'' (PStr ''do it'') 100"

definition opaque0 :: message where
  "opaque0 = [(''type'', PStr ''step''), (''payload'', PObj ''AgentStep'')]"

definition killed_tasks :: active_tasks where
  "killed_tasks = Map.empty(''t1'' \<mapsto> info0 killed_process [start0])"

definition env0 :: "pydict \<Rightarrow> run_env" where
  "env0 body =
     \<lparr> get_json = Inr (PDict body),
       read_text = (\<lambda>p. if p = ''task.txt'' then ReadOk ''from file'' else FileNotFound),
       getcwd = ''/srv'',
       mkdir = (\<lambda>p. None),
       abspath = (\<lambda>p. p),
       uuid4 = ''u1'',
       start_process = (\<lambda>task_id task config_data args. Inr live_process),
       time_now = 50,
       type_error = (\<lambda>v. Exn ''expected str, bytes or os.PathLike object'' ''Traceback''),
       attribute_error = (\<lambda>v. Exn ''object has no attribute get'' ''Traceback'') \<rparr>"

definition silent_completion :: chat_completion where
  "silent_completion =
     \<lparr> api_choices = [\<lparr> api_message = \<lparr> api_content = None, api_tool_calls = None \<rparr>,
                        api_finish_reason = ''stop'' \<rparr>],
       api_usage = None, api_model = ''gpt-4o'' \<rparr>"

definition chat_env0 :: "chat_completion \<Rightarrow> chat_env" where
  "chat_env0 completion =
     \<lparr> create_response = (\<lambda>history schemas. Inr completion),
       json_loads = (\<lambda>s. Inr (PDict [])),
       json_dumps = (\<lambda>v. ''{}''),
       strip = (\<lambda>s. s),
       trajectory_recorder = None \<rparr>"

definition hello :: LLMMessage where
  "hello = \<lparr> role = ''user'', msg_content = Some ''hello'', tool_call = None,
             tool_result = None \<rparr>"

definition valid_call :: pydict where
  "valid_call = [(''thought'', PStr ''plan''), (''thought_number'', PInt 5),
                 (''total_thoughts'', PInt 3), (''next_thought_needed'', PBool True)]"

definition invalid_call :: pydict where
  "invalid_call = [(''thought'', PStr ''plan''), (''thought_number'', PInt 0),
                   (''total_thoughts'', PInt 3), (''next_thought_needed'', PBool True)]"

section \<open>Properties of the sequential thinking tool\<close>

lemma validate_thought_number_ge1:
  "validate_thought_data B arguments = Inr v \<Longrightarrow> 1 \<le> thought_number v"
  unfolding validate_thought_data_def
  by (auto split: option.splits if_splits sum.splits)

lemma execute_invalid:
  "validate_thought_data B arguments = Inl e \<Longrightarrow>
   execute B self arguments = (\<lparr> tool_output = None, tool_error = Some e, error_code = - 1 \<rparr>, self)"
  by (simp add: execute_def)

lemma execute_valid:
  assumes "validate_thought_data B arguments = Inr v"
  shows "\<exists>td. thought_history (snd (execute B self arguments)) = thought_history self @ [td]
           \<and> in_bounds td \<and> tool_output (fst (execute B self arguments)) \<noteq> None
           \<and> tool_error (fst (execute B self arguments)) = None"
  using validate_thought_number_ge1 [OF assms] assms
  by (auto simp: execute_def Let_def in_bounds_def split: option.splits prod.splits)

lemma execute_preserves_bounds:
  "list_all in_bounds (thought_history self) \<Longrightarrow>
   list_all in_bounds (thought_history (snd (execute B self arguments)))"
proof (cases "validate_thought_data B arguments")
  case (Inl e)
  assume "list_all in_bounds (thought_history self)"
  with execute_invalid [OF Inl] show ?thesis by simp
next
  case (Inr v)
  assume h: "list_all in_bounds (thought_history self)"
  from execute_valid [OF Inr, of self] obtain td where
    "thought_history (snd (execute B self arguments)) = thought_history self @ [td]"
    "in_bounds td" by blast
  with h show ?thesis by simp
qed

lemma execute_calls_preserves_bounds:
  "list_all in_bounds (thought_history self) \<Longrightarrow>
   list_all in_bounds (thought_history (execute_calls B self calls))"
  by (induction calls arbitrary: self) (auto intro: execute_preserves_bounds)

lemma valid_call_ok:
  "validate_thought_data builtins0 valid_call =
     Inr \<lparr> thought = ''plan'', thought_number = 5, total_thoughts = 3,
           next_thought_needed = True, is_revision = None, revises_thought = None,
           branch_from_thought = None, branch_id = None, needs_more_thoughts = None \<rparr>"
  by (simp add: validate_thought_data_def valid_call_def optional_positive_def
      optional_field_def)

lemma invalid_call_fails:
  "validate_thought_data builtins0 invalid_call = Inl ThoughtNumberBelowOne"
  by (simp add: validate_thought_data_def invalid_call_def)

text \<open>
  Claim C10. A call of \<open>execute\<close> whose arguments fail validation returns an error result
  (error code -1) and leaves the tool object, so \<open>thought_history\<close> and \<open>branches\<close>, as it
  was. A call whose arguments pass appends one ThoughtData with
  \<open>1 \<le> thought_number \<le> total_thoughts\<close>. After any sequence of calls on a fresh tool,
  every element of \<open>thought_history\<close> satisfies this bound.
\<close>

theorem execute_thought_bounds:
  "(validate_thought_data B arguments = Inl e \<longrightarrow>
      execute B self arguments =
        (\<lparr> tool_output = None, tool_error = Some e, error_code = - 1 \<rparr>, self))
   \<and> (validate_thought_data B arguments = Inr v \<longrightarrow>
      (\<exists>td. thought_history (snd (execute B self arguments)) = thought_history self @ [td]
            \<and> in_bounds td \<and> tool_error (fst (execute B self arguments)) = None))
   \<and> list_all in_bounds (thought_history (execute_calls B init_tool calls))"
proof (intro conjI impI)
  assume "validate_thought_data B arguments = Inl e"
  then show "execute B self arguments =
      (\<lparr> tool_output = None, tool_error = Some e, error_code = - 1 \<rparr>, self)"
    by (rule execute_invalid)
next
  assume "validate_thought_data B arguments = Inr v"
  from execute_valid [OF this, of self]
  show "\<exists>td. thought_history (snd (execute B self arguments)) = thought_history self @ [td]
            \<and> in_bounds td \<and> tool_error (fst (execute B self arguments)) = None"
    by blast
next
  show "list_all in_bounds (thought_history (execute_calls B init_tool calls))"
    by (rule execute_calls_preserves_bounds) (simp add: init_tool_def)
qed

theorem execute_thought_bounds_witness:
  "validate_thought_data builtins0 invalid_call = Inl ThoughtNumberBelowOne
   \<and> execute builtins0 init_tool invalid_call =
       (\<lparr> tool_output = None, tool_error = Some ThoughtNumberBelowOne, error_code = - 1 \<rparr>,
        init_tool)
   \<and> (\<exists>td. thought_history (snd (execute builtins0 init_tool valid_call)) =
              thought_history init_tool @ [td]
            \<and> in_bounds td \<and> tool_error (fst (execute builtins0 init_tool valid_call)) = None)
   \<and> list_all in_bounds
        (thought_history (execute_calls builtins0 init_tool [valid_call, invalid_call, valid_call]))"
  using execute_thought_bounds [where B = builtins0 and arguments = invalid_call
          and e = ThoughtNumberBelowOne and self = init_tool and calls = "[]"]
        execute_thought_bounds [where B = builtins0 and arguments = valid_call
          and self = init_tool and calls = "[valid_call, invalid_call, valid_call]"]
        valid_call_ok invalid_call_fails
  by simp

section \<open>Properties of the worker\<close>

lemma is_type_events [simp]:
  "is_type t (start_event B task_id task c) = (t = ''start'')"
  "is_type t (complete_event task_id c) = (t = ''complete'')"
  "is_type t (error_event task_id e c) = (t = ''error'')"
  "is_type t (end_event task_id c) = (t = ''end'')"
  by (auto simp: is_type_def start_event_def complete_event_def error_event_def end_event_def)




text \<open>
  Claim C2, as the code has it. The worker puts no \<open>step\<close> event on the queue, whatever
  the agent loop does; when the configuration, the agent and the agent run all return, the
  events are exactly \<open>start\<close>, \<open>complete\<close>, \<open>end\<close>.
\<close>

theorem worker_emits_no_step:
  "count_type ''step'' (fst (run_agent_task B task_id task W)) = 0
   \<and> (create_agent_config W = Returns () \<and> create_agent W = Returns ()
        \<and> agent_run W = Returns r \<longrightarrow>
        fst (run_agent_task B task_id task W) =
          [start_event B task_id task (clock W 0), complete_event task_id (clock W 1),
           end_event task_id (clock W 2)])"
  by (cases "create_agent_config W"; cases "create_agent W"; cases "agent_run W")
     (simp_all add: run_agent_task_def try_block_def count_type_def numeral_2_eq_2)

theorem worker_emits_no_step_witness:
  "create_agent_config run0 = Returns () \<and> create_agent run0 = Returns ()
   \<and> agent_run run0 = Returns 1
   \<and> count_type ''step'' (fst (run_agent_task builtins0 ''t1'' (PStr ''do it'') run0)) = 0
   \<and> fst (run_agent_task builtins0 ''t1'' (PStr ''do it'') run0) =
        [start_event builtins0 ''t1'' (PStr ''do it'') 100, complete_event ''t1'' 101,
         end_event ''t1'' 102]"
  using worker_emits_no_step [where W = run0 and B = builtins0 and task_id = "''t1''"
      and task = "PStr ''do it''" and r = 1]
  by (simp add: run0_def count_type_def)

text \<open>
  The claim as stated fails: a task whose agent run returns at once (one turn, no tool
  call) gives the three events \<open>start\<close>, \<open>complete\<close>, \<open>end\<close>, and no \<open>step\<close>.
\<close>

theorem first_turn_final_answer_has_no_step:
  "map (\<lambda>m. map_of m ''type'') (fst (run_agent_task builtins0 ''t1'' (PStr ''do it'') run0)) =
     [Some (PStr ''start''), Some (PStr ''complete''), Some (PStr ''end'')]
   \<and> map (\<lambda>m. map_of m ''type'') (fst (run_agent_task builtins0 ''t1'' (PStr ''do it'') run0)) \<noteq>
     [Some (PStr ''start''), Some (PStr ''step''), Some (PStr ''complete''), Some (PStr ''end'')]"
  by (simp add: run0_def run_agent_task_def try_block_def start_event_def complete_event_def
      end_event_def)

section \<open>Properties of the readers\<close>

lemma generate_continues:
  "list_all continues pre \<Longrightarrow>
   generate B task_id (pre @ rest) =
     (relayed B pre @ fst (generate B task_id rest), snd (generate B task_id rest))"
proof (induction pre)
  case Nil
  then show ?case by simp
next
  case (Cons p pre)
  then show ?case by (cases p) (simp_all split: prod.splits)
qed

lemma generate_quiet:
  "list_all continues pre \<Longrightarrow> generate B task_id pre = (relayed B pre, Polling)"
  using generate_continues [of pre B task_id "[]"] by simp

text \<open>
  Claim C3. On a registered task the stream relays the messages it reads in order. While
  no \<open>end\<close> was read and the worker was alive at every empty read, the stream is open; on
  reading an \<open>end\<close> message it sends that message's chunk and closes; on an empty read with
  the worker dead it sends a synthesized \<open>end\<close> event, carrying the task id and the clock
  reading, and closes. What the queue holds afterwards is not read.
\<close>

theorem stream_relays_until_end:
  assumes "tasks task_id = Some info" "list_all continues pre"
  shows "(is_type ''end'' m \<longrightarrow>
            stream_task_messages B tasks task_id (pre @ Got m now # rest) =
              Inr (relayed B pre @ [Data (checked_message B m now)], Closed))
       \<and> stream_task_messages B tasks task_id (pre @ Empty False now # rest) =
              Inr (relayed B pre @ [Data (end_event task_id now)], Closed)
       \<and> is_type ''end'' (end_event task_id now)
       \<and> map_of (end_event task_id now) ''task_id'' = Some (PStr task_id)
       \<and> map_of (end_event task_id now) ''timestamp'' = Some (PFloat now)
       \<and> stream_task_messages B tasks task_id pre = Inr (relayed B pre, Polling)"
  using assms generate_continues [OF assms(2), of B task_id]
    generate_quiet [OF assms(2), of B task_id]
  by (simp add: stream_task_messages_def end_event_def is_type_def)

theorem stream_relays_until_end_witness:
  "killed_tasks ''t1'' = Some (info0 killed_process [start0])
   \<and> list_all continues [Got start0 1, Empty True 2]
   \<and> is_type ''end'' (end_event ''t1'' 3)
   \<and> stream_task_messages builtins0 killed_tasks ''t1''
        ([Got start0 1, Empty True 2] @ Got (end_event ''t1'' 3) 4 # [Got start0 5]) =
        Inr ([Data start0, Data (end_event ''t1'' 3)], Closed)
   \<and> stream_task_messages builtins0 killed_tasks ''t1''
        ([Got start0 1, Empty True 2] @ Empty False 4 # [Got start0 5]) =
        Inr ([Data start0, Data (end_event ''t1'' 4)], Closed)
   \<and> stream_task_messages builtins0 killed_tasks ''t1'' [Got start0 1, Empty True 2] =
        Inr ([Data start0], Polling)"
  using stream_relays_until_end [where tasks = killed_tasks and task_id = "''t1''"
      and info = "info0 killed_process [start0]" and pre = "[Got start0 1, Empty True 2]"
      and m = "end_event ''t1'' 3" and now = 4 and rest = "[Got start0 5]" and B = builtins0]
  by (simp add: killed_tasks_def start0_def checked_message_def start_event_def is_type_def
      end_event_def)

lemma serialization_error_message_props:
  "is_type ''error'' (serialization_error_message B m now)"
  "map_of (serialization_error_message B m now) ''original_message'' =
     Some (PStr (py_str B (PDict m)))"
  "json_serializable (PDict (serialization_error_message B m now))"
  by (simp_all add: serialization_error_message_def is_type_def)

lemma get_task_status_messages:
  "tasks task_id = Some info \<Longrightarrow> handle_fault (process info) = None \<Longrightarrow>
   response_messages (fst (get_task_status B now tasks task_id)) =
     map (\<lambda>m. PDict (checked_message B m now)) (queue info)"
  by (simp add: get_task_status_def Let_def comp_def)

text \<open>
  Claim C8. When \<open>json.dumps\<close> rejects an event, both readers put in its place an \<open>error\<close>
  event that carries the event's \<open>str()\<close> form under \<open>original_message\<close> and is itself
  serialisable. The stream sends it and goes on with the rest of the queue as it would have
  (the event's own type still decides whether the stream closes); the status response lists
  it at the event's position among the other events.
\<close>

theorem unserializable_event_substituted:
  assumes "\<not> json_serializable (PDict m)"
  shows "checked_message B m now = serialization_error_message B m now
       \<and> is_type ''error'' (serialization_error_message B m now)
       \<and> map_of (serialization_error_message B m now) ''original_message'' =
            Some (PStr (py_str B (PDict m)))
       \<and> json_serializable (PDict (serialization_error_message B m now))
       \<and> (list_all continues pre \<and> \<not> is_type ''end'' m \<longrightarrow>
            generate B task_id (pre @ Got m now # rest) =
              (relayed B pre @ Data (serialization_error_message B m now)
                 # fst (generate B task_id rest),
               snd (generate B task_id rest)))
       \<and> (tasks task_id = Some info \<and> handle_fault (process info) = None
            \<and> queue info = before @ m # after \<longrightarrow>
            response_messages (fst (get_task_status B t tasks task_id)) =
              map (\<lambda>m. PDict (checked_message B m t)) before
              @ PDict (serialization_error_message B m t)
              # map (\<lambda>m. PDict (checked_message B m t)) after)"
proof (intro conjI impI)
  show "checked_message B m now = serialization_error_message B m now"
    using assms by (simp only: checked_message_def if_False)
  show "is_type ''error'' (serialization_error_message B m now)"
    by (rule serialization_error_message_props)
  show "map_of (serialization_error_message B m now) ''original_message'' =
          Some (PStr (py_str B (PDict m)))"
    by (rule serialization_error_message_props)
  show "json_serializable (PDict (serialization_error_message B m now))"
    by (rule serialization_error_message_props)
next
  assume "list_all continues pre \<and> \<not> is_type ''end'' m"
  then show "generate B task_id (pre @ Got m now # rest) =
      (relayed B pre @ Data (serialization_error_message B m now)
         # fst (generate B task_id rest),
       snd (generate B task_id rest))"
    using assms by (simp add: generate_continues checked_message_def split: prod.splits)
next
  assume h: "tasks task_id = Some info \<and> handle_fault (process info) = None
    \<and> queue info = before @ m # after"
  then have "response_messages (fst (get_task_status B t tasks task_id)) =
     map (\<lambda>m. PDict (checked_message B m t)) (before @ m # after)"
    using get_task_status_messages [of tasks task_id info B t] by simp
  moreover have "checked_message B m t = serialization_error_message B m t"
    using assms by (simp only: checked_message_def if_False)
  ultimately show "response_messages (fst (get_task_status B t tasks task_id)) =
      map (\<lambda>m. PDict (checked_message B m t)) before
      @ PDict (serialization_error_message B m t)
      # map (\<lambda>m. PDict (checked_message B m t)) after"
    by simp
qed

theorem unserializable_event_substituted_witness:
  "\<not> json_serializable (PDict opaque0)
   \<and> list_all continues [Got start0 1] \<and> \<not> is_type ''end'' opaque0
   \<and> generate builtins0 ''t1'' ([Got start0 1] @ Got opaque0 2 # [Got (end_event ''t1'' 3) 4]) =
       ([Data start0, Data (serialization_error_message builtins0 opaque0 2),
         Data (end_event ''t1'' 3)], Closed)
   \<and> (Map.empty(''t1'' \<mapsto> info0 live_process [start0, opaque0, end_event ''t1'' 3])) ''t1'' =
       Some (info0 live_process [start0, opaque0, end_event ''t1'' 3])
   \<and> handle_fault (process (info0 live_process [start0, opaque0, end_event ''t1'' 3])) = None
   \<and> response_messages (fst (get_task_status builtins0 9
        (Map.empty(''t1'' \<mapsto> info0 live_process [start0, opaque0, end_event ''t1'' 3])) ''t1'')) =
       [PDict start0, PDict (serialization_error_message builtins0 opaque0 9),
        PDict (end_event ''t1'' 3)]"
  using unserializable_event_substituted [where m = opaque0 and B = builtins0 and now = 2
      and pre = "[Got start0 1]" and task_id = "''t1''" and rest = "[Got (end_event ''t1'' 3) 4]"
      and tasks = "Map.empty(''t1'' \<mapsto> info0 live_process [start0, opaque0, end_event ''t1'' 3])"
      and info = "info0 live_process [start0, opaque0, end_event ''t1'' 3]"
      and before = "[start0]" and after = "[end_event ''t1'' 3]" and t = 9]
  by (simp add: opaque0_def start0_def checked_message_def start_event_def is_type_def
      end_event_def info0_def live_process_def)


lemma checked_message_not_end:
  "\<not> is_type ''end'' m \<Longrightarrow> \<not> is_type ''end'' (checked_message B m now)"
  by (simp add: checked_message_def serialization_error_message_def is_type_def)

lemma get_task_status_dead:
  assumes "tasks task_id = Some info" "handle_fault (process info) = None"
    "\<not> alive (process info)"
  shows "get_task_status B now tasks task_id =
     (Ok [(''status'', PStr ''success''),
          (''task_id'', PStr task_id),
          (''task_status'', PStr ''completed''),
          (''start_time'', PFloat (start_time info)),
          (''duration'', PFloat (now - start_time info)),
          (''messages'', PList (map (\<lambda>m. PDict (checked_message B m now)) (queue info)))],
      tasks(task_id \<mapsto> info\<lparr> status := ''completed'', queue := [] \<rparr>))"
  using assms by (simp add: get_task_status_def Let_def comp_def)

lemma status_reader_dead:
  assumes "tasks task_id = Some info" "handle_fault (process info) = None"
    "\<not> alive (process info)"
  shows "status_reader B now task_id n tasks =
     (if n = 0 then [] else map (\<lambda>m. PDict (checked_message B m now)) (queue info))"
  using assms
proof (induction n arbitrary: tasks info)
  case 0
  then show ?case by simp
next
  case (Suc n)
  let ?info' = "info\<lparr> status := ''completed'', queue := [] \<rparr>"
  let ?tasks' = "tasks(task_id \<mapsto> ?info')"
  have "status_reader B now task_id n ?tasks' =
      (if n = 0 then [] else map (\<lambda>m. PDict (checked_message B m now)) (queue ?info'))"
    by (rule Suc.IH [where info = ?info' and tasks = ?tasks']) (use Suc.prems in simp_all)
  then have "status_reader B now task_id n ?tasks' = []" by simp
  with Suc.prems
    get_task_status_dead [where tasks = tasks and task_id = task_id and info = info
      and B = B and now = now]
  show ?case by simp
qed

lemma status_reader_dead_no_end:
  assumes "tasks task_id = Some info" "handle_fault (process info) = None"
    "\<not> alive (process info)" "list_all (\<lambda>m. \<not> is_type ''end'' m) (queue info)"
  shows "\<not> list_ex shows_end (status_reader B now task_id n tasks)"
  using assms checked_message_not_end
    status_reader_dead [where tasks = tasks and task_id = task_id and info = info and B = B
      and now = now and n = n]
  by (auto simp: list_ex_iff list_all_iff)

lemma generate_dead_polls:
  "list_all (\<lambda>m. \<not> is_type ''end'' m) q \<Longrightarrow>
   generate B task_id (dead_polls q now) =
     (map (\<lambda>m. Data (checked_message B m now)) q @ [Data (end_event task_id now)], Closed)"
  unfolding dead_polls_def by (induction q) simp_all

text \<open>
  Claim C4, as the code has it. Take a registered task whose worker is dead and whose
  queue holds no \<open>end\<close> event. A stream on it relays the queued events, then sends a
  synthesized \<open>end\<close> and closes. A reader that only calls the status operation, however
  often, is never shown an \<open>end\<close> event: the operation returns the queued events and
  reports the task status \<open>completed\<close>.
\<close>

theorem killed_worker_readers:
  assumes "tasks task_id = Some info" "handle_fault (process info) = None"
    "\<not> alive (process info)" "list_all (\<lambda>m. \<not> is_type ''end'' m) (queue info)"
  shows "stream_task_messages B tasks task_id (dead_polls (queue info) now) =
           Inr (map (\<lambda>m. Data (checked_message B m now)) (queue info)
                @ [Data (end_event task_id now)], Closed)
       \<and> \<not> list_ex shows_end (status_reader B now task_id n tasks)
       \<and> fst (get_task_status B now tasks task_id) =
           Ok [(''status'', PStr ''success''),
               (''task_id'', PStr task_id),
               (''task_status'', PStr ''completed''),
               (''start_time'', PFloat (start_time info)),
               (''duration'', PFloat (now - start_time info)),
               (''messages'', PList (map (\<lambda>m. PDict (checked_message B m now)) (queue info)))]"
  using assms generate_dead_polls [OF assms(4), of B task_id now]
    status_reader_dead_no_end [where tasks = tasks and task_id = task_id and info = info
      and B = B and now = now and n = n]
    get_task_status_dead [where tasks = tasks and task_id = task_id and info = info
      and B = B and now = now]
  by (simp add: stream_task_messages_def)

theorem killed_worker_readers_witness:
  "killed_tasks ''t1'' = Some (info0 killed_process [start0])
   \<and> handle_fault (process (info0 killed_process [start0])) = None
   \<and> \<not> alive (process (info0 killed_process [start0]))
   \<and> list_all (\<lambda>m. \<not> is_type ''end'' m) (queue (info0 killed_process [start0]))
   \<and> stream_task_messages builtins0 killed_tasks ''t1'' (dead_polls [start0] 200) =
        Inr ([Data start0, Data (end_event ''t1'' 200)], Closed)
   \<and> \<not> list_ex shows_end (status_reader builtins0 200 ''t1'' 3 killed_tasks)
   \<and> fst (get_task_status builtins0 200 killed_tasks ''t1'') =
        Ok [(''status'', PStr ''success''), (''task_id'', PStr ''t1''),
            (''task_status'', PStr ''completed''), (''start_time'', PFloat 99),
            (''duration'', PFloat 101), (''messages'', PList [PDict start0])]"
  using killed_worker_readers [where tasks = killed_tasks and task_id = "''t1''"
      and info = "info0 killed_process [start0]" and B = builtins0 and now = 200 and n = 3]
  by (simp add: killed_tasks_def info0_def killed_process_def start0_def start_event_def
      is_type_def checked_message_def)

text \<open>
  The claim as stated fails: on a task whose worker was killed after its \<open>start\<close> event, no
  number of status calls shows an \<open>end\<close> event.
\<close>

theorem status_reader_never_sees_end:
  "response_messages (fst (get_task_status builtins0 200 killed_tasks ''t1'')) = [PDict start0]
   \<and> \<not> shows_end (PDict start0)
   \<and> \<not> (\<exists>n. list_ex shows_end (status_reader builtins0 200 ''t1'' n killed_tasks))"
proof (intro conjI)
  show "response_messages (fst (get_task_status builtins0 200 killed_tasks ''t1'')) =
      [PDict start0]"
    by (simp add: get_task_status_def Let_def killed_tasks_def info0_def killed_process_def
        checked_message_def start0_def start_event_def)
  show "\<not> shows_end (PDict start0)"
    by (simp add: start0_def)
  show "\<not> (\<exists>n. list_ex shows_end (status_reader builtins0 200 ''t1'' n killed_tasks))"
  proof
    assume "\<exists>n. list_ex shows_end (status_reader builtins0 200 ''t1'' n killed_tasks)"
    then obtain n where
      "list_ex shows_end (status_reader builtins0 200 ''t1'' n killed_tasks)" ..
    moreover have "\<not> list_ex shows_end (status_reader builtins0 200 ''t1'' n killed_tasks)"
      by (rule status_reader_dead_no_end [where info = "info0 killed_process [start0]"])
         (simp_all add: killed_tasks_def info0_def killed_process_def start0_def
            start_event_def is_type_def)
    ultimately show False by contradiction
  qed
qed

section \<open>Properties of stop\_task\<close>

lemma stop_task_registered:
  "tasks task_id = Some info \<Longrightarrow> handle_fault (process info) = None \<Longrightarrow>
   stop_task tasks task_id =
     (Ok [(''status'', PStr ''success''), (''message'', PStr ''Task stopped successfully'')],
      (if alive (process info)
       then (if exits_on_terminate (process info) then [Terminate, Join (Some 5)]
             else [Terminate, Join (Some 5), Kill, Join None])
       else []),
      tasks(task_id := None))"
  by (simp add: stop_task_def stop_process_def)

lemma stop_task_unregistered:
  "tasks task_id = None \<Longrightarrow> stop_task tasks task_id = (NotFound, [], tasks)"
  by (simp add: stop_task_def)

lemma stop_task_ok_removes:
  "stop_task tasks task_id = (Ok body, actions, tasks') \<Longrightarrow> tasks' task_id = None"
  by (auto simp: stop_task_def split: option.splits sum.splits prod.splits)

lemma unregistered_stays:
  "tasks task_id = None \<Longrightarrow>
   snd (get_task_status B now tasks other) task_id = None
   \<and> snd (snd (stop_task tasks other)) task_id = None"
  by (auto simp: get_task_status_def stop_task_def Let_def
      split: option.splits sum.splits prod.splits)

text \<open>
  Claim C5. After a stop that succeeded (a 200 response), a second stop of the same task
  id returns the 404 "Task not found" response, calls nothing on any process and changes
  nothing; so does a stop of a task id that is not registered.
\<close>

theorem stop_twice_not_found:
  "(stop_task tasks task_id = (Ok body, actions, tasks') \<longrightarrow>
      stop_task tasks' task_id = (NotFound, [], tasks'))
   \<and> (tasks task_id = None \<longrightarrow> stop_task tasks task_id = (NotFound, [], tasks))
   \<and> status_code NotFound = 404"
  using stop_task_ok_removes [of tasks task_id body actions tasks']
  by (simp add: stop_task_unregistered)

theorem stop_twice_not_found_witness:
  "stop_task (Map.empty(''t1'' \<mapsto> info0 live_process [])) ''t1'' =
     (Ok [(''status'', PStr ''success''), (''message'', PStr ''Task stopped successfully'')],
      [Terminate, Join (Some 5)], Map.empty)
   \<and> stop_task Map.empty ''t1'' = (NotFound, [], Map.empty)
   \<and> status_code NotFound = 404"
  using stop_twice_not_found [where tasks = "Map.empty(''t1'' \<mapsto> info0 live_process [])"
      and task_id = "''t1''" and tasks' = Map.empty and actions = "[Terminate, Join (Some 5)]"
      and body = "[(''status'', PStr ''success''), (''message'', PStr ''Task stopped successfully'')]"]
  by (simp add: stop_task_def stop_process_def info0_def live_process_def)

text \<open>
  Claim C6. On a registered task whose process handle raises nothing, \<open>stop_task\<close> calls
  \<open>terminate()\<close> and then \<open>join(timeout=5)\<close> on a live worker, and \<open>kill()\<close> and \<open>join()\<close>
  after them when the worker has not exited within the 5 seconds; it calls nothing on a
  worker that is not alive. In each case it answers 200 and removes the registration:
  status, stream and stop on that task id then answer 404, and neither status nor stop, on
  any task id, registers it again.
\<close>

theorem stop_terminates_then_deregisters:
  assumes "tasks task_id = Some info" "handle_fault (process info) = None"
    "stop_task tasks task_id = (r, actions, tasks')"
  shows "(alive (process info) \<longrightarrow> take 2 actions = [Terminate, Join (Some 5)])
       \<and> (alive (process info) \<and> exits_on_terminate (process info) \<longrightarrow>
            actions = [Terminate, Join (Some 5)])
       \<and> (alive (process info) \<and> \<not> exits_on_terminate (process info) \<longrightarrow>
            actions = [Terminate, Join (Some 5), Kill, Join None])
       \<and> (\<not> alive (process info) \<longrightarrow> actions = [])
       \<and> status_code r = 200
       \<and> tasks' task_id = None
       \<and> get_task_status B now tasks' task_id = (NotFound, tasks')
       \<and> stream_task_messages B tasks' task_id polls = Inl NotFound
       \<and> stop_task tasks' task_id = (NotFound, [], tasks')
       \<and> snd (get_task_status B now tasks' other) task_id = None
       \<and> snd (snd (stop_task tasks' other)) task_id = None"
proof -
  from stop_task_registered [where tasks = tasks and task_id = task_id and info = info] assms
  have r: "r = Ok [(''status'', PStr ''success''),
                   (''message'', PStr ''Task stopped successfully'')]"
    and a: "actions = (if alive (process info)
       then (if exits_on_terminate (process info) then [Terminate, Join (Some 5)]
             else [Terminate, Join (Some 5), Kill, Join None])
       else [])"
    and t: "tasks' = tasks(task_id := None)"
    by simp_all
  from t have n: "tasks' task_id = None" by simp
  from unregistered_stays [where tasks = tasks' and task_id = task_id and B = B and now = now
      and other = other] n r a show ?thesis
    by (simp add: get_task_status_def stream_task_messages_def stop_task_unregistered)
qed

theorem stop_terminates_then_deregisters_witness:
  "(Map.empty(''t1'' \<mapsto> info0 stubborn_process [start0])) ''t1'' =
      Some (info0 stubborn_process [start0])
   \<and> handle_fault (process (info0 stubborn_process [start0])) = None
   \<and> alive (process (info0 stubborn_process [start0]))
   \<and> \<not> exits_on_terminate (process (info0 stubborn_process [start0]))
   \<and> stop_task (Map.empty(''t1'' \<mapsto> info0 stubborn_process [start0])) ''t1'' =
      (Ok [(''status'', PStr ''success''), (''message'', PStr ''Task stopped successfully'')],
       [Terminate, Join (Some 5), Kill, Join None], Map.empty)
   \<and> get_task_status builtins0 7 Map.empty ''t1'' = (NotFound, Map.empty)
   \<and> stream_task_messages builtins0 Map.empty ''t1'' [Empty False 8] = Inl NotFound
   \<and> stop_task Map.empty ''t1'' = (NotFound, [], Map.empty)"
  using stop_terminates_then_deregisters
     [where tasks = "Map.empty(''t1'' \<mapsto> info0 stubborn_process [start0])"
      and task_id = "''t1''" and info = "info0 stubborn_process [start0]"
      and r = "Ok [(''status'', PStr ''success''), (''message'', PStr ''Task stopped successfully'')]"
      and actions = "[Terminate, Join (Some 5), Kill, Join None]" and tasks' = Map.empty
      and B = builtins0 and now = 7 and polls = "[Empty False 8]" and other = "''t1''"]
  by (simp add: stop_task_def stop_process_def info0_def stubborn_process_def)

section \<open>Properties of run\_task\<close>

lemma given_nonempty: "given d k \<Longrightarrow> d \<noteq> []"
  by (auto simp: given_def py_get_def)

lemma run_task_dict:
  "get_json E = Inr (PDict d) \<Longrightarrow> d \<noteq> [] \<Longrightarrow>
   run_task E tasks =
     (case run_task_instruction E d of
        Inl r \<Rightarrow> (r, tasks)
      | Inr task \<Rightarrow>
     (case run_task_working_dir E d of
        Inl r \<Rightarrow> (r, tasks)
      | Inr working_dir \<Rightarrow>
     (case start_process E (uuid4 E) task d (task_args d working_dir task) of
        Inl e \<Rightarrow> (ServerError e, tasks)
      | Inr p \<Rightarrow>
          (Ok [(''status'', PStr ''success''),
               (''message'', PStr ''Task started successfully''),
               (''task_id'', PStr (uuid4 E))],
           tasks(uuid4 E \<mapsto>
             \<lparr> process = p, queue = [], start_time = time_now E, status = ''running'' \<rparr>)))))"
  by (simp add: run_task_def)

lemma run_task_both:
  "get_json E = Inr (PDict d) \<Longrightarrow> given d ''task'' \<Longrightarrow> given d ''file_path'' \<Longrightarrow>
   run_task E tasks = (ClientError ''Cannot use both task and file_path'', tasks)"
  using given_nonempty [of d "''task''"]
  by (simp add: run_task_dict run_task_instruction_def given_def)

lemma run_task_neither:
  "get_json E = Inr (PDict d) \<Longrightarrow> \<not> given d ''task'' \<Longrightarrow> \<not> given d ''file_path'' \<Longrightarrow>
   status_code (fst (run_task E tasks)) = 400 \<and> snd (run_task E tasks) = tasks"
  by (cases "d = []") (simp_all add: run_task_dict run_task_instruction_def given_def,
      simp add: run_task_def)

lemma run_task_instruction_task_only:
  "given d ''task'' \<Longrightarrow> \<not> given d ''file_path'' \<Longrightarrow>
   run_task_instruction E d = Inr (py_get d ''task'')"
  by (simp add: run_task_instruction_def given_def)

lemma run_task_instruction_file_only:
  "\<not> given d ''task'' \<Longrightarrow> py_get d ''file_path'' = PStr path \<Longrightarrow> path \<noteq> [] \<Longrightarrow>
   run_task_instruction E d =
     (case read_text E path of
        ReadOk contents \<Rightarrow> Inr (PStr contents)
      | FileNotFound \<Rightarrow> Inl (ClientError (''File not found: '' @ path))
      | ReadRaises e \<Rightarrow> Inl (ServerError e))"
  by (simp add: run_task_instruction_def given_def)

lemma run_task_started:
  assumes "get_json E = Inr (PDict d)" "d \<noteq> []"
    "run_task_instruction E d = Inr task" "run_task_working_dir E d = Inr wd"
    "start_process E (uuid4 E) task d (task_args d wd task) = Inr p"
  shows "run_task E tasks =
     (Ok [(''status'', PStr ''success''),
          (''message'', PStr ''Task started successfully''),
          (''task_id'', PStr (uuid4 E))],
      tasks(uuid4 E \<mapsto>
        \<lparr> process = p, queue = [], start_time = time_now E, status = ''running'' \<rparr>))"
  using assms by (simp add: run_task_dict)

text \<open>
  Claim C9, as the code has it. On a request whose body is a JSON object: when both
  \<open>task\<close> and \<open>file_path\<close> are given, or neither, the answer is a 400 and the registry is
  unchanged (no worker is started). When only \<open>task\<close> is given, or only a \<open>file_path\<close>
  whose file can be read, and the working directory can be created and the worker process
  starts, the answer is a 200 with the new task id, and the task is registered. When only
  a \<open>file_path\<close> is given and the file does not exist, the answer is a 400 and the
  registry is unchanged.
\<close>

theorem run_task_instruction_xor_file:
  assumes "get_json E = Inr (PDict d)"
  shows "(given d ''task'' \<and> given d ''file_path'' \<longrightarrow>
            run_task E tasks = (ClientError ''Cannot use both task and file_path'', tasks))
       \<and> (\<not> given d ''task'' \<and> \<not> given d ''file_path'' \<longrightarrow>
            status_code (fst (run_task E tasks)) = 400 \<and> snd (run_task E tasks) = tasks)
       \<and> (given d ''task'' \<and> \<not> given d ''file_path''
            \<and> run_task_working_dir E d = Inr wd
            \<and> start_process E (uuid4 E) (py_get d ''task'') d
                 (task_args d wd (py_get d ''task'')) = Inr p \<longrightarrow>
            run_task E tasks =
              (Ok [(''status'', PStr ''success''),
                   (''message'', PStr ''Task started successfully''),
                   (''task_id'', PStr (uuid4 E))],
               tasks(uuid4 E \<mapsto>
                 \<lparr> process = p, queue = [], start_time = time_now E,
                   status = ''running'' \<rparr>)))
       \<and> (\<not> given d ''task'' \<and> py_get d ''file_path'' = PStr path \<and> path \<noteq> []
            \<and> read_text E path = ReadOk contents
            \<and> run_task_working_dir E d = Inr wd
            \<and> start_process E (uuid4 E) (PStr contents) d (task_args d wd (PStr contents)) = Inr p \<longrightarrow>
            run_task E tasks =
              (Ok [(''status'', PStr ''success''),
                   (''message'', PStr ''Task started successfully''),
                   (''task_id'', PStr (uuid4 E))],
               tasks(uuid4 E \<mapsto>
                 \<lparr> process = p, queue = [], start_time = time_now E,
                   status = ''running'' \<rparr>)))
       \<and> (\<not> given d ''task'' \<and> py_get d ''file_path'' = PStr path \<and> path \<noteq> []
            \<and> read_text E path = FileNotFound \<longrightarrow>
            run_task E tasks = (ClientError (''File not found: '' @ path), tasks))"
proof (intro conjI impI)
  assume "given d ''task'' \<and> given d ''file_path''"
  with assms show "run_task E tasks = (ClientError ''Cannot use both task and file_path'', tasks)"
    by (simp add: run_task_both)
next
  assume h: "\<not> given d ''task'' \<and> \<not> given d ''file_path''"
  with assms run_task_neither [of E d tasks]
  show "status_code (fst (run_task E tasks)) = 400" by simp
  from h assms run_task_neither [of E d tasks]
  show "snd (run_task E tasks) = tasks" by simp
next
  assume h: "given d ''task'' \<and> \<not> given d ''file_path''
    \<and> run_task_working_dir E d = Inr wd
    \<and> start_process E (uuid4 E) (py_get d ''task'') d
         (task_args d wd (py_get d ''task'')) = Inr p"
  then have "d \<noteq> []" using given_nonempty by blast
  moreover from h have "run_task_instruction E d = Inr (py_get d ''task'')"
    by (simp add: run_task_instruction_task_only)
  ultimately show "run_task E tasks =
      (Ok [(''status'', PStr ''success''),
           (''message'', PStr ''Task started successfully''),
           (''task_id'', PStr (uuid4 E))],
       tasks(uuid4 E \<mapsto>
         \<lparr> process = p, queue = [], start_time = time_now E, status = ''running'' \<rparr>))"
    using assms h by (simp add: run_task_started)
next
  assume h: "\<not> given d ''task'' \<and> py_get d ''file_path'' = PStr path \<and> path \<noteq> []
    \<and> read_text E path = ReadOk contents
    \<and> run_task_working_dir E d = Inr wd
    \<and> start_process E (uuid4 E) (PStr contents) d (task_args d wd (PStr contents)) = Inr p"
  then have "given d ''file_path''" by (simp add: given_def)
  then have "d \<noteq> []" by (rule given_nonempty)
  moreover from h have "run_task_instruction E d = Inr (PStr contents)"
    by (simp add: run_task_instruction_file_only)
  ultimately show "run_task E tasks =
      (Ok [(''status'', PStr ''success''),
           (''message'', PStr ''Task started successfully''),
           (''task_id'', PStr (uuid4 E))],
       tasks(uuid4 E \<mapsto>
         \<lparr> process = p, queue = [], start_time = time_now E, status = ''running'' \<rparr>))"
    using assms h by (simp add: run_task_started)
next
  assume h: "\<not> given d ''task'' \<and> py_get d ''file_path'' = PStr path \<and> path \<noteq> []
    \<and> read_text E path = FileNotFound"
  then have "given d ''file_path''" by (simp add: given_def)
  then have "d \<noteq> []" by (rule given_nonempty)
  moreover from h
  have "run_task_instruction E d = Inl (ClientError (''File not found: '' @ path))"
    by (simp add: run_task_instruction_file_only)
  ultimately show "run_task E tasks = (ClientError (''File not found: '' @ path), tasks)"
    using assms by (simp add: run_task_dict)
qed

theorem run_task_instruction_xor_file_witness:
  "get_json (env0 [(''file_path'', PStr ''task.txt''), (''working_dir'', PStr ''w'')]) =
      Inr (PDict [(''file_path'', PStr ''task.txt''), (''working_dir'', PStr ''w'')])
   \<and> \<not> given [(''file_path'', PStr ''task.txt''), (''working_dir'', PStr ''w'')] ''task''
   \<and> given [(''file_path'', PStr ''task.txt''), (''working_dir'', PStr ''w'')] ''file_path''
   \<and> run_task_working_dir
        (env0 [(''file_path'', PStr ''task.txt''), (''working_dir'', PStr ''w'')])
        [(''file_path'', PStr ''task.txt''), (''working_dir'', PStr ''w'')] = Inr ''/srv/w''
   \<and> run_task (env0 [(''file_path'', PStr ''task.txt''), (''working_dir'', PStr ''w'')])
        Map.empty =
      (Ok [(''status'', PStr ''success''), (''message'', PStr ''Task started successfully''),
           (''task_id'', PStr ''u1'')],
       Map.empty(''u1'' \<mapsto>
         \<lparr> process = live_process, queue = [], start_time = 50, status = ''running'' \<rparr>))"
  using run_task_instruction_xor_file
     [where E = "env0 [(''file_path'', PStr ''task.txt''), (''working_dir'', PStr ''w'')]"
      and d = "[(''file_path'', PStr ''task.txt''), (''working_dir'', PStr ''w'')]"
      and path = "''task.txt''" and contents = "''from file''" and wd = "''/srv/w''"
      and p = live_process and tasks = Map.empty]
  by (simp add: env0_def given_def py_get_def run_task_working_dir_def path_join_def
      is_absolute_def)

text \<open>
  The claim as stated fails: a request that gives only \<open>file_path\<close>, naming a file that
  does not exist, is answered with a 400 and no task id.
\<close>

theorem file_path_only_missing_file:
  "given [(''file_path'', PStr ''missing.txt'')] ''file_path''
   \<and> \<not> given [(''file_path'', PStr ''missing.txt'')] ''task''
   \<and> run_task (env0 [(''file_path'', PStr ''missing.txt'')]) Map.empty =
       (ClientError ''File not found: missing.txt'', Map.empty)
   \<and> status_code (fst (run_task (env0 [(''file_path'', PStr ''missing.txt'')]) Map.empty)) = 400"
  by (simp add: env0_def given_def py_get_def run_task_def run_task_instruction_def)

section \<open>Properties of the OpenAI client\<close>

lemma convert_tool_calls_empty:
  "convert_tool_calls E cs = Inr calls \<Longrightarrow> (calls = []) = (cs = [])"
  by (cases cs) (auto split: sum.splits if_splits)

lemma chat_returns:
  assumes "chat E message_history messages tools reuse_history = (Inr r, h)"
  shows "\<exists>parsed response choice others calls.
           parse_messages E messages = Inr parsed
         \<and> create_response E
              (if reuse_history then message_history @ parsed else parsed)
              (tool_schemas tools) = Inr response
         \<and> api_choices response = choice # others
         \<and> convert_tool_calls E
              (case api_tool_calls (api_message choice) of None \<Rightarrow> [] | Some cs \<Rightarrow> cs) =
              Inr calls
         \<and> content r = (case api_content (api_message choice) of None \<Rightarrow> [] | Some s \<Rightarrow> s)
         \<and> tool_calls r = (if calls \<noteq> [] then Some calls else None)"
proof (cases "parse_messages E messages")
  case (Inl e)
  with assms show ?thesis by (simp add: chat_def)
next
  case parsed: (Inr parsed)
  let ?history = "if reuse_history then message_history @ parsed else parsed"
  show ?thesis
  proof (cases "create_response E ?history (tool_schemas tools)")
    case (Inl e)
    with assms parsed show ?thesis by (simp add: chat_def Let_def)
  next
    case response: (Inr response)
    show ?thesis
    proof (cases "api_choices response")
      case Nil
      with assms parsed response show ?thesis by (simp add: chat_def Let_def)
    next
      case choices: (Cons choice others)
      let ?cs = "case api_tool_calls (api_message choice) of None \<Rightarrow> [] | Some cs \<Rightarrow> cs"
      show ?thesis
      proof (cases "convert_tool_calls E ?cs")
        case (Inl e)
        with assms parsed response choices show ?thesis by (simp add: chat_def Let_def)
      next
        case calls: (Inr calls)
        from assms parsed response choices calls
        have "content r = (case api_content (api_message choice) of None \<Rightarrow> [] | Some s \<Rightarrow> s)
            \<and> tool_calls r = (if calls \<noteq> [] then Some calls else None)"
          by (auto simp: chat_def Let_def split: option.splits)
        with parsed response choices calls show ?thesis by blast
      qed
    qed
  qed
qed

lemma chat_silent_turn:
  assumes "parse_messages E messages = Inr parsed"
    "create_response E (if reuse_history then message_history @ parsed else parsed)
       (tool_schemas tools) = Inr response"
    "api_choices response = choice # others"
    "api_content (api_message choice) = None \<or> api_content (api_message choice) = Some []"
    "api_tool_calls (api_message choice) = None \<or> api_tool_calls (api_message choice) = Some []"
    "trajectory_recorder E = None"
  shows "chat E message_history messages tools reuse_history =
     (Inr \<lparr> content = [], usage = llm_usage (api_usage response), model = api_model response,
            finish_reason = api_finish_reason choice, tool_calls = None \<rparr>,
      if reuse_history then message_history @ parsed else parsed)"
  using assms by (auto simp: chat_def Let_def with_assistant_turn_def)

text \<open>
  Claim C7, as the code has it. In the LLMResponse that \<open>chat\<close> returns, \<open>tool_calls\<close> is
  \<open>None\<close> or a non-empty list, never an empty list, and \<open>content\<close> is the content of the
  provider's first choice, or the empty string when that is \<open>None\<close>. Both can be empty:
  \<open>tool_calls\<close> is \<open>None\<close> exactly when the first choice has no tool calls, and when it
  has no content either, \<open>chat\<close> returns a response with empty content and \<open>tool_calls\<close>
  \<open>None\<close>, and appends no assistant entry to the message history.
\<close>

theorem chat_turn_shape:
  "(chat E message_history messages tools reuse_history = (Inr r, h) \<longrightarrow>
      tool_calls r \<noteq> Some []
      \<and> (\<exists>parsed response choice others.
            parse_messages E messages = Inr parsed
          \<and> create_response E
               (if reuse_history then message_history @ parsed else parsed)
               (tool_schemas tools) = Inr response
          \<and> api_choices response = choice # others
          \<and> content r =
               (case api_content (api_message choice) of None \<Rightarrow> [] | Some s \<Rightarrow> s)
          \<and> (tool_calls r = None) =
               (api_tool_calls (api_message choice) = None
                \<or> api_tool_calls (api_message choice) = Some [])))
   \<and> (parse_messages E messages = Inr parsed'
       \<and> create_response E
            (if reuse_history then message_history @ parsed' else parsed')
            (tool_schemas tools) = Inr response'
       \<and> api_choices response' = choice' # others'
       \<and> (api_content (api_message choice') = None
            \<or> api_content (api_message choice') = Some [])
       \<and> (api_tool_calls (api_message choice') = None
            \<or> api_tool_calls (api_message choice') = Some [])
       \<and> trajectory_recorder E = None \<longrightarrow>
       chat E message_history messages tools reuse_history =
         (Inr \<lparr> content = [], usage = llm_usage (api_usage response'),
                model = api_model response', finish_reason = api_finish_reason choice',
                tool_calls = None \<rparr>,
          if reuse_history then message_history @ parsed' else parsed'))"
proof (intro conjI impI)
  assume a: "chat E message_history messages tools reuse_history = (Inr r, h)"
  from chat_returns [OF a] obtain parsed response choice others calls where
    p: "parse_messages E messages = Inr parsed"
    and c: "create_response E
              (if reuse_history then message_history @ parsed else parsed)
              (tool_schemas tools) = Inr response"
    and ch: "api_choices response = choice # others"
    and cv: "convert_tool_calls E
              (case api_tool_calls (api_message choice) of None \<Rightarrow> [] | Some cs \<Rightarrow> cs) =
              Inr calls"
    and ct: "content r =
              (case api_content (api_message choice) of None \<Rightarrow> [] | Some s \<Rightarrow> s)"
    and tc: "tool_calls r = (if calls \<noteq> [] then Some calls else None)"
    by blast
  from tc show "tool_calls r \<noteq> Some []" by (simp split: if_splits)
  from convert_tool_calls_empty [OF cv] tc
  have eq: "(tool_calls r = None) =
          (api_tool_calls (api_message choice) = None
           \<or> api_tool_calls (api_message choice) = Some [])"
    by (auto split: option.splits if_splits)
  show "\<exists>parsed response choice others.
            parse_messages E messages = Inr parsed
          \<and> create_response E
               (if reuse_history then message_history @ parsed else parsed)
               (tool_schemas tools) = Inr response
          \<and> api_choices response = choice # others
          \<and> content r =
               (case api_content (api_message choice) of None \<Rightarrow> [] | Some s \<Rightarrow> s)
          \<and> (tool_calls r = None) =
               (api_tool_calls (api_message choice) = None
                \<or> api_tool_calls (api_message choice) = Some [])"
    by (rule exI [of _ parsed], rule exI [of _ response], rule exI [of _ choice],
        rule exI [of _ others]) (intro conjI p c ch ct eq)
next
  assume "parse_messages E messages = Inr parsed'
       \<and> create_response E
            (if reuse_history then message_history @ parsed' else parsed')
            (tool_schemas tools) = Inr response'
       \<and> api_choices response' = choice' # others'
       \<and> (api_content (api_message choice') = None
            \<or> api_content (api_message choice') = Some [])
       \<and> (api_tool_calls (api_message choice') = None
            \<or> api_tool_calls (api_message choice') = Some [])
       \<and> trajectory_recorder E = None"
  then show "chat E message_history messages tools reuse_history =
         (Inr \<lparr> content = [], usage = llm_usage (api_usage response'),
                model = api_model response', finish_reason = api_finish_reason choice',
                tool_calls = None \<rparr>,
          if reuse_history then message_history @ parsed' else parsed')"
    using chat_silent_turn [of E messages parsed' reuse_history message_history tools
        response' choice' others']
    by blast
qed

theorem chat_turn_shape_witness:
  "parse_messages (chat_env0 silent_completion) [hello] = Inr [UserMessage ''hello'']
   \<and> create_response (chat_env0 silent_completion) [UserMessage ''hello''] (tool_schemas None) =
       Inr silent_completion
   \<and> api_choices silent_completion =
       [\<lparr> api_message = \<lparr> api_content = None, api_tool_calls = None \<rparr>,
          api_finish_reason = ''stop'' \<rparr>]
   \<and> trajectory_recorder (chat_env0 silent_completion) = None
   \<and> chat (chat_env0 silent_completion) [] [hello] None True =
       (Inr \<lparr> content = [], usage = None, model = ''gpt-4o'', finish_reason = ''stop'',
              tool_calls = None \<rparr>,
        [UserMessage ''hello''])"
  using chat_turn_shape [where E = "chat_env0 silent_completion" and message_history = "[]"
      and messages = "[hello]" and tools = None and reuse_history = True
      and parsed' = "[UserMessage ''hello'']" and response' = silent_completion
      and choice' = "\<lparr> api_message = \<lparr> api_content = None, api_tool_calls = None \<rparr>,
                       api_finish_reason = ''stop'' \<rparr>"
      and others' = "[]"]
  by (simp add: chat_env0_def silent_completion_def hello_def parse_message_def llm_usage_def)

text \<open>
  The claim as stated fails: when the provider's first choice has neither content nor tool
  calls, the response has empty content and \<open>tool_calls\<close> \<open>None\<close>.
\<close>

theorem chat_returns_empty_turn:
  "fst (chat (chat_env0 silent_completion) [] [hello] None True) =
     Inr \<lparr> content = [], usage = None, model = ''gpt-4o'', finish_reason = ''stop'',
           tool_calls = None \<rparr>"
  by (simp add: chat_def chat_env0_def silent_completion_def hello_def parse_message_def
      llm_usage_def tool_schemas_def with_assistant_turn_def)

end
